theory Spec2Isabelle
  imports Main "HOL-Library.Sublist" "HOL-Library.Multiset"
begin

section \<open>Strings and the Go library functions the synchroniser relies on\<close>

text \<open>
  Go strings are byte sequences; they are modelled as \<open>string\<close> (a \<open>char list\<close>).
  The newline byte is written \<open>NL\<close>.
\<close>

abbreviation NL :: char where
  "NL \<equiv> CHR 0x0A"

text \<open>
  Errors are values.  \<open>Failure\<close> is a non-nil Go \<open>error\<close> with its message,
  \<open>RuntimePanic\<close> is a run-time panic (here only the index-out-of-range panic of a
  slice access), which is never a returned error: it unwinds through every caller.
\<close>

datatype error = Failure string | RuntimePanic string

text \<open>
  \<open>strings.Split(s, sep)\<close> for a non-empty separator: the pieces of \<open>s\<close> between the
  non-overlapping occurrences of \<open>sep\<close>, found from left to right; always at least one
  piece.  The source only calls it with the constant separators
  \<open>"\n\n"\<close>, \<open>"\n"\<close> and \<open>": "\<close>.
\<close>

function Split :: "string \<Rightarrow> string \<Rightarrow> string list" where
  "Split [] sep = [[]]"
| "Split (c # cs) sep =
     (if sep \<noteq> [] \<and> prefix sep (c # cs)
      then [] # Split (drop (length sep) (c # cs)) sep
      else (case Split cs sep of
              [] \<Rightarrow> [[c]]
            | p # ps \<Rightarrow> (c # p) # ps))"
  by pat_completeness auto
termination
  by (relation "measure (\<lambda>(s, sep). length s)") (auto simp: Suc_le_eq)

text \<open>\<open>strings.HasPrefix(s, p)\<close>.\<close>

definition HasPrefix :: "string \<Rightarrow> string \<Rightarrow> bool" where
  "HasPrefix s p = prefix p s"

text \<open>\<open>strings.HasSuffix(s, p)\<close>.\<close>

definition HasSuffix :: "string \<Rightarrow> string \<Rightarrow> bool" where
  "HasSuffix s p = suffix p s"

text \<open>\<open>strings.Join(elems, sep)\<close>.\<close>

fun Join_strings :: "string list \<Rightarrow> string \<Rightarrow> string" where
  "Join_strings [] sep = []"
| "Join_strings [x] sep = x"
| "Join_strings (x # y # ys) sep = x @ sep @ Join_strings (y # ys) sep"

text \<open>
  The slice access \<open>xs[i]\<close>: Go panics with an index-out-of-range run-time error when
  \<open>i\<close> is not below the length.
\<close>

definition index :: "string list \<Rightarrow> nat \<Rightarrow> error + string" where
  "index xs i =
     (if i < length xs then Inr (xs ! i)
      else Inl (RuntimePanic ''index out of range''))"

text \<open>Whether \<open>sub\<close> occurs in \<open>s\<close> (\<open>strings.Contains\<close>); used in statements only.\<close>

fun Contains :: "string \<Rightarrow> string \<Rightarrow> bool" where
  "Contains [] sub = (sub = [])"
| "Contains (c # cs) sub = (prefix sub (c # cs) \<or> Contains cs sub)"

section \<open>Data model\<close>

record PackageListsProvider =
  Name :: string
  Custom :: bool
  Url :: string
  Architecture :: string
  Components :: "string list"
  Distributions :: "string list"

record PackageListsDefinition =
  Providers :: "PackageListsProvider list"

text \<open>
  The two structs below are declared in a file of the package that is not part of the
  sources at hand; their fields are the ones \<open>parsePackagesFile\<close> fills
  (\<open>Name\<close>, \<open>Version\<close>, \<open>Url\<close>, \<open>Sha256\<close>, and the slice \<open>Xdeb\<close>).  The entry
  fields carry the prefix \<open>xdeb_\<close> because \<open>Name\<close> and \<open>Url\<close> are already fields of
  the provider record.
\<close>

record XdebPackageDefinition =
  xdeb_Name :: string
  xdeb_Version :: string
  xdeb_Url :: string
  xdeb_Sha256 :: string

record XdebProviderDefinition =
  Xdeb :: "XdebPackageDefinition list"

section \<open>Index parser\<close>

text \<open>
  The inner loop of \<open>parsePackagesFile\<close> over the lines of one record.  The four
  local variables \<open>name\<close>, \<open>version\<close>, \<open>url\<close>, \<open>sha256\<close> are the loop state; a line
  is tested against the four prefixes in the order of the source, and the value taken
  is element 1 of \<open>strings.Split(line, ": ")\<close>.
\<close>

type_synonym fields = "string \<times> string \<times> string \<times> string"

fun parseLine :: "string \<Rightarrow> fields \<Rightarrow> string \<Rightarrow> error + fields" where
  "parseLine urlPrefix (name, version, url, sha256) line =
     (if HasPrefix line ''Package:'' then
        (case index (Split line '': '') 1 of
           Inl e \<Rightarrow> Inl e
         | Inr v \<Rightarrow> Inr (v, version, url, sha256))
      else if HasPrefix line ''Version:'' then
        (case index (Split line '': '') 1 of
           Inl e \<Rightarrow> Inl e
         | Inr v \<Rightarrow> Inr (name, v, url, sha256))
      else if HasPrefix line ''Filename:'' then
        (case index (Split line '': '') 1 of
           Inl e \<Rightarrow> Inl e
         | Inr sfx \<Rightarrow> Inr (name, version, urlPrefix @ ''/'' @ sfx, sha256))
      else if HasPrefix line ''SHA256:'' then
        (case index (Split line '': '') 1 of
           Inl e \<Rightarrow> Inl e
         | Inr v \<Rightarrow> Inr (name, version, url, v))
      else Inr (name, version, url, sha256))"

fun parseLines :: "string \<Rightarrow> fields \<Rightarrow> string list \<Rightarrow> error + fields" where
  "parseLines urlPrefix fs [] = Inr fs"
| "parseLines urlPrefix fs (line # rest) =
     (case parseLine urlPrefix fs line of
        Inl e \<Rightarrow> Inl e
      | Inr fs' \<Rightarrow> parseLines urlPrefix fs' rest)"

text \<open>The body of the outer loop for one non-empty record.\<close>

definition parseRecord :: "string \<Rightarrow> string \<Rightarrow> error + XdebPackageDefinition" where
  "parseRecord urlPrefix package_data =
     (case parseLines urlPrefix ([], [], [], []) (Split package_data [NL]) of
        Inl e \<Rightarrow> Inl e
      | Inr (name, version, url, sha256) \<Rightarrow>
          Inr \<lparr>xdeb_Name = name, xdeb_Version = version,
               xdeb_Url = url, xdeb_Sha256 = sha256\<rparr>)"

text \<open>The outer loop: empty records are skipped, every other record appends one entry.\<close>

fun parseRecords ::
  "string \<Rightarrow> XdebPackageDefinition list \<Rightarrow> string list \<Rightarrow> error + XdebPackageDefinition list"
where
  "parseRecords urlPrefix acc [] = Inr acc"
| "parseRecords urlPrefix acc (package_data # rest) =
     (if length package_data = 0 then parseRecords urlPrefix acc rest
      else (case parseRecord urlPrefix package_data of
              Inl e \<Rightarrow> Inl e
            | Inr entry \<Rightarrow> parseRecords urlPrefix (acc @ [entry]) rest))"

definition parsePackagesFile :: "string \<Rightarrow> string \<Rightarrow> error + XdebProviderDefinition" where
  "parsePackagesFile urlPrefix packages_file =
     (case parseRecords urlPrefix [] (Split packages_file [NL, NL]) of
        Inl e \<Rightarrow> Inl e
      | Inr entries \<Rightarrow> Inr \<lparr>Xdeb = entries\<rparr>)"

section \<open>Paths (Go's \<open>path/filepath\<close> on Unix)\<close>

text \<open>
  \<open>filepath.Clean\<close>: multiple slashes become one, \<open>.\<close> elements are dropped, an
  inner \<open>..\<close> removes the element before it, a \<open>..\<close> at the start of a rooted path
  is dropped, and the empty result is \<open>.\<close>.  \<open>cleanStep\<close> handles one element; the
  elements kept so far are held last-first.
\<close>

fun cleanStep :: "bool \<Rightarrow> string list \<Rightarrow> string \<Rightarrow> string list" where
  "cleanStep rooted out e =
     (if e = ''..'' then
        (case out of
           [] \<Rightarrow> (if rooted then [] else [''..''])
         | e0 # rest \<Rightarrow> (if e0 = ''..'' then ''..'' # out else rest))
      else e # out)"

definition Clean :: "string \<Rightarrow> string" where
  "Clean p =
     (if p = [] then ''.''
      else
        let rooted = (hd p = CHR ''/'');
            elems = filter (\<lambda>e. e \<noteq> [] \<and> e \<noteq> ''.'') (Split p ''/'');
            out = foldl (cleanStep rooted) [] elems;
            s = (if rooted then ''/'' else []) @ Join_strings (rev out) ''/''
        in if s = [] then ''.'' else s)"

text \<open>\<open>filepath.Join(elem...)\<close>: leading empty elements are ignored, the rest is joined
  with slashes and cleaned; no non-empty element gives the empty string.\<close>

definition filepath_Join :: "string list \<Rightarrow> string" where
  "filepath_Join elem =
     (case dropWhile (\<lambda>e. e = []) elem of
        [] \<Rightarrow> []
      | es \<Rightarrow> Clean (Join_strings es ''/''))"

text \<open>\<open>filepath.Base(path)\<close>: the last element of the path, trailing slashes removed
  first; \<open>.\<close> for the empty path and \<open>/\<close> for a path of slashes only.\<close>

definition filepath_Base :: "string \<Rightarrow> string" where
  "filepath_Base path =
     (if path = [] then ''.''
      else
        let stripped = rev (dropWhile (\<lambda>c. c = CHR ''/'') (rev path));
            last_elem = rev (takeWhile (\<lambda>c. c \<noteq> CHR ''/'') (rev stripped))
        in if last_elem = [] then ''/'' else last_elem)"

text \<open>\<open>filepath.Dir(path)\<close>: everything up to the last slash, cleaned.\<close>

definition filepath_Dir :: "string \<Rightarrow> string" where
  "filepath_Dir path = Clean (rev (dropWhile (\<lambda>c. c \<noteq> CHR ''/'') (rev path)))"

section \<open>The outside world\<close>

text \<open>
  A byte stream that is read to its end (\<open>io.ReadAll\<close>) gives either all its bytes or
  the error of the failing read.
\<close>

type_synonym stream = "error + string"

definition ReadAll :: "stream \<Rightarrow> error + string" where
  "ReadAll r = r"

text \<open>
  An HTTP response, as far as the source looks at it: the status code, the URL of the
  request that was finally answered (after redirects) and the body.
\<close>

record response =
  StatusCode :: int
  Request_URL_Scheme :: string
  Request_URL_Host :: string
  Request_URL_Path :: string
  Request_URL_String :: string
  Body :: stream

text \<open>
  Everything the program does not implement itself is a parameter: the network, the
  gzip, xz and zstd codecs, the YAML encoder, the operations of the file system that can
  fail, and the order in which the concurrently started jobs of one provider complete.
\<close>

record env =
  http_Get :: "string \<Rightarrow> error + response"
  xz_NewReader :: "stream \<Rightarrow> error + stream"
  gzip_NewReader :: "stream \<Rightarrow> error + stream"
  zstd_encode :: "string \<Rightarrow> error + string"
  zstd_decode :: "string \<Rightarrow> error + string"
  yaml_Marshal :: "XdebProviderDefinition \<Rightarrow> error + string"
  os_MkdirAll :: "string \<Rightarrow> error option"
  os_Create :: "string \<Rightarrow> error option"
  file_Write :: "string \<Rightarrow> string \<Rightarrow> error option"
  schedule :: "(string \<times> string) list \<Rightarrow> (string \<times> string) list"

text \<open>
  The state the program acts on: the files with their contents, the directories it has
  asked for, the HTTP requests it has sent, the lines it has logged and the jobs
  (provider name, distribution, component) it has started, each in order.
\<close>

record world =
  files :: "string \<Rightarrow> string option"
  mkdirs :: "string list"
  requests :: "string list"
  logs :: "string list"
  dispatched :: "(string \<times> string \<times> string) list"

text \<open>\<open>http.Get(url)\<close> and \<open>client.Get(url)\<close>: the request is sent, then answered.\<close>

definition Get :: "env \<Rightarrow> world \<Rightarrow> string \<Rightarrow> (error + response) \<times> world" where
  "Get env st url = (http_Get env url, st\<lparr>requests := requests st @ [url]\<rparr>)"

text \<open>
  Modelled from the spec: \<open>LogMessage\<close> is defined in a file of the package that is
  not among the sources; the spec gives it as \<open>log(message)\<close>, process-wide
  fire-and-forget status reporting.  It receives the formatted message.
\<close>

definition LogMessage :: "world \<Rightarrow> string \<Rightarrow> world" where
  "LogMessage st msg = st\<lparr>logs := logs st @ [msg]\<rparr>"

section \<open>Compression adapter and file output\<close>

text \<open>
  \<open>compressData(in, out)\<close> streams \<open>in\<close> through a zstd encoder into \<open>out\<close>; the
  result is the error, or the bytes that reached \<open>out\<close>.  \<open>decompressData\<close> is the
  same through a zstd decoder.  The codec itself is the library's.
\<close>

definition compressData :: "env \<Rightarrow> string \<Rightarrow> error + string" where
  "compressData env inp = zstd_encode env inp"

definition decompressData :: "env \<Rightarrow> string \<Rightarrow> error + string" where
  "decompressData env inp = zstd_decode env inp"

text \<open>
  \<open>writeFile(path, data, compress)\<close> returns the pair \<open>(fullPath, err)\<close>.
  Flushing the buffered writer into the in-memory buffer cannot fail.  A file that was
  created and whose write failed is left empty.
\<close>

definition writeFile ::
  "env \<Rightarrow> world \<Rightarrow> string \<Rightarrow> string \<Rightarrow> bool \<Rightarrow> (string \<times> error option) \<times> world"
where
  "writeFile env st path data compress =
     (case (if compress
            then (case compressData env data of
                    Inl err \<Rightarrow> Inl err
                  | Inr compressedBytes \<Rightarrow> Inr (compressedBytes, path @ ''.zst''))
            else Inr (data, path)) of
        Inl err \<Rightarrow> (([], Some err), st)
      | Inr (fileData, fullPath) \<Rightarrow>
          (case os_MkdirAll env (filepath_Dir path) of
             Some err \<Rightarrow> (([], Some err), st)
           | None \<Rightarrow>
               let st1 = st\<lparr>mkdirs := mkdirs st @ [filepath_Dir path]\<rparr> in
               (case os_Create env fullPath of
                  Some err \<Rightarrow> (([], Some err), st1)
                | None \<Rightarrow>
                    let st2 = st1\<lparr>files := (files st1)(fullPath \<mapsto> [])\<rparr> in
                    (case file_Write env fullPath fileData of
                       Some err \<Rightarrow> ((fullPath, Some err), st2)
                     | None \<Rightarrow>
                         ((fullPath, None),
                          st2\<lparr>files := (files st2)(fullPath \<mapsto> fileData)\<rparr>)))))"

text \<open>
  \<open>DownloadFile(path, url, followRedirects, compress)\<close>.  The sources also hold a
  variant with two parameters that copies the body to the file as it is; the calls in
  \<open>pullCustomRepository\<close> and \<open>ParsePackageLists\<close> pass four arguments, so the
  variant with four parameters is the one they reach, and the one modelled.
\<close>

definition DownloadFile ::
  "env \<Rightarrow> world \<Rightarrow> string \<Rightarrow> string \<Rightarrow> bool \<Rightarrow> bool \<Rightarrow> (string \<times> error option) \<times> world"
where
  "DownloadFile env st path url followRedirects compress =
     (case Get env st url of
        (Inl err, st1) \<Rightarrow> (([], Some (Failure (''Could not download file '' @ url))), st1)
      | (Inr resp, st1) \<Rightarrow>
          (case (if followRedirects
                 then (case Get env st1 (Request_URL_String resp) of
                         (Inl err, st2) \<Rightarrow>
                           (Inl (Failure (''Could not download file ''
                                          @ Request_URL_String resp)), st2)
                       | (Inr resp2, st2) \<Rightarrow> (Inr (Request_URL_String resp, resp2), st2))
                 else (Inr (url, resp), st1)) of
             (Inl err, st2) \<Rightarrow> (([], Some err), st2)
           | (Inr (url2, resp2), st2) \<Rightarrow>
               if StatusCode resp2 \<noteq> 200
               then (([], Some (Failure (''Could not download file '' @ url2))), st2)
               else (case ReadAll (Body resp2) of
                       Inl err \<Rightarrow> (([], Some err), st2)
                     | Inr body \<Rightarrow>
                         writeFile env st2
                           (filepath_Join [path, filepath_Base url2]) body compress)))"

section \<open>Repository fetcher\<close>

text \<open>
  Lines 79 to 108 of \<open>pullPackagesFile\<close>: the plain URL is requested, then, as long
  as the status is not 200, the URL with \<open>.xz\<close> and the URL with \<open>.gz\<close>.  The result
  is the pair (response, error); both are absent when the last status is not 200.
\<close>

definition packagesUrl :: "string \<Rightarrow> string \<Rightarrow> string \<Rightarrow> string \<Rightarrow> string" where
  "packagesUrl urlPrefix dist component architecture =
     urlPrefix @ ''/dists/'' @ dist @ ''/'' @ component @ ''/binary-'' @ architecture
       @ ''/Packages''"

definition fetchPackages ::
  "env \<Rightarrow> world \<Rightarrow> string \<Rightarrow> (response option \<times> error option) \<times> world"
where
  "fetchPackages env st url =
     (case Get env st url of
        (Inl err, st1) \<Rightarrow> ((None, Some err), st1)
      | (Inr resp, st1) \<Rightarrow>
          (case (if StatusCode resp \<noteq> 200 then Get env st1 (url @ ''.xz'')
                 else (Inr resp, st1)) of
             (Inl err, st2) \<Rightarrow> ((None, Some err), st2)
           | (Inr resp2, st2) \<Rightarrow>
               (case (if StatusCode resp2 \<noteq> 200 then Get env st2 (url @ ''.gz'')
                      else (Inr resp2, st2)) of
                  (Inl err, st3) \<Rightarrow> ((None, Some err), st3)
                | (Inr resp3, st3) \<Rightarrow>
                    if StatusCode resp3 \<noteq> 200 then ((None, None), st3)
                    else ((Some resp3, None), st3))))"

text \<open>
  Lines 110 to 145: the decoder is chosen by the suffix of the URL that was finally
  answered, the stream is read to its end and parsed.  In the last branch the source
  tests \<open>err\<close> again, which is nil there.
\<close>

definition requestUrl :: "response \<Rightarrow> string" where
  "requestUrl resp =
     Request_URL_Scheme resp @ ''://'' @ Request_URL_Host resp @ Request_URL_Path resp"

definition readPackages ::
  "env \<Rightarrow> string \<Rightarrow> response \<Rightarrow> XdebProviderDefinition option \<times> error option"
where
  "readPackages env urlPrefix resp =
     (case (if HasSuffix (requestUrl resp) ''.xz'' then xz_NewReader env (Body resp)
            else if HasSuffix (requestUrl resp) ''.gz'' then gzip_NewReader env (Body resp)
            else Inr (Body resp)) of
        Inl err \<Rightarrow> (None, Some err)
      | Inr reader \<Rightarrow>
          (case ReadAll reader of
             Inl err \<Rightarrow> (None, Some err)
           | Inr output \<Rightarrow>
               (case parsePackagesFile urlPrefix output of
                  Inl panic \<Rightarrow> (None, Some panic)
                | Inr defn \<Rightarrow> (Some defn, None))))"

definition pullPackagesFile ::
  "env \<Rightarrow> world \<Rightarrow> string \<Rightarrow> string \<Rightarrow> string \<Rightarrow> string
     \<Rightarrow> (XdebProviderDefinition option \<times> error option) \<times> world"
where
  "pullPackagesFile env st urlPrefix dist component architecture =
     (case fetchPackages env st (packagesUrl urlPrefix dist component architecture) of
        ((_, Some err), st1) \<Rightarrow> ((None, Some err), st1)
      | ((None, None), st1) \<Rightarrow> ((None, None), st1)
      | ((Some resp, None), st1) \<Rightarrow> (readPackages env urlPrefix resp, st1))"

definition pullAptRepository ::
  "env \<Rightarrow> world \<Rightarrow> string \<Rightarrow> string \<Rightarrow> string \<Rightarrow> string \<Rightarrow> string
     \<Rightarrow> error option \<times> world"
where
  "pullAptRepository env st directory url dist component architecture =
     (case pullPackagesFile env st url dist component architecture of
        ((_, Some err), st1) \<Rightarrow> (Some err, st1)
      | ((None, None), st1) \<Rightarrow> (None, st1)
      | ((Some defn, None), st1) \<Rightarrow>
          if length (Xdeb defn) > 0 then
            let st2 = LogMessage st1
                        (''Syncing repository '' @ filepath_Base directory @ ''/'' @ dist
                           @ '': '' @ component);
                filePath = filepath_Join [directory, dist, component @ ''.yaml'']
            in (case yaml_Marshal env defn of
                  Inl err \<Rightarrow> (Some err, st2)
                | Inr data \<Rightarrow>
                    (case writeFile env st2 filePath data True of
                       ((_, Some err), st3) \<Rightarrow> (Some err, st3)
                     | ((_, None), st3) \<Rightarrow> (None, st3)))
          else (None, st1))"

definition pullCustomRepository ::
  "env \<Rightarrow> world \<Rightarrow> string \<Rightarrow> string \<Rightarrow> string \<Rightarrow> string \<Rightarrow> error option \<times> world"
where
  "pullCustomRepository env st directory urlPrefix dist component =
     (let st1 = LogMessage st
                  (''Syncing repository '' @ filepath_Base urlPrefix @ ''/'' @ dist
                     @ '': '' @ component);
          url = urlPrefix @ ''/'' @ dist @ ''/'' @ component
      in (case DownloadFile env st1 (filepath_Join [directory, dist]) url False True of
            ((_, err), st2) \<Rightarrow> (err, st2)))"

section \<open>Sync orchestrator\<close>

text \<open>\<open>slices.Contains(xs, x)\<close>.\<close>

definition slices_Contains :: "string list \<Rightarrow> string \<Rightarrow> bool" where
  "slices_Contains xs x = (x \<in> set xs)"

text \<open>The verb \<open>%v\<close> applied to a slice of strings: the elements between brackets,
  separated by one space.\<close>

definition format_v :: "string list \<Rightarrow> string" where
  "format_v xs = ''['' @ Join_strings xs '' '' @ '']''"

definition notSupported :: "string \<Rightarrow> string list \<Rightarrow> error" where
  "notSupported providerName availableProviderNames =
     Failure (''Provider '' @ providerName @ '' not supported. Omit or use any of ''
                @ format_v availableProviderNames)"

text \<open>Lines 215 to 219: the first requested name that is not available ends the call.\<close>

fun checkProviderNames :: "string list \<Rightarrow> string list \<Rightarrow> error option" where
  "checkProviderNames availableProviderNames [] = None"
| "checkProviderNames availableProviderNames (providerName # rest) =
     (if \<not> slices_Contains availableProviderNames providerName
      then Some (notSupported providerName availableProviderNames)
      else checkProviderNames availableProviderNames rest)"

text \<open>Lines 221 to 231: the providers the run is about.\<close>

definition selectProviders ::
  "PackageListsDefinition \<Rightarrow> string list \<Rightarrow> PackageListsProvider list"
where
  "selectProviders plists providerNames =
     (if length providerNames > 0
      then filter (\<lambda>provider. slices_Contains providerNames (Name provider))
             (Providers plists)
      else [] @ Providers plists)"

text \<open>Lines 233 to 241: one count for every (distribution, component) pair of every
  selected provider.\<close>

definition countOperations :: "PackageListsProvider list \<Rightarrow> nat" where
  "countOperations providers =
     fold (\<lambda>provider n.
             fold (\<lambda>distribution n. fold (\<lambda>component n. n + 1) (Components provider) n)
               (Distributions provider) n)
       providers 0"

text \<open>The (distribution, component) pairs of a provider in the order of the two
  nested loops that start the jobs.\<close>

definition jobsOf :: "PackageListsProvider \<Rightarrow> (string \<times> string) list" where
  "jobsOf provider =
     concat (map (\<lambda>distribution. map (\<lambda>component. (distribution, component))
                                   (Components provider))
               (Distributions provider))"

text \<open>The body of one job: what it sends into the channel, and the new state.\<close>

definition runJob ::
  "env \<Rightarrow> world \<Rightarrow> string \<Rightarrow> PackageListsProvider \<Rightarrow> string \<Rightarrow> string
     \<Rightarrow> error option \<times> world"
where
  "runJob env st path p d c =
     (let directory = filepath_Join [path, Name p]
      in if Custom p then pullCustomRepository env st directory (Url p) d c
         else pullAptRepository env st directory (Url p) d c (Architecture p))"

text \<open>
  The jobs of one provider run concurrently.  The model runs each job as one step, in
  the order \<open>schedule env\<close> gives, which is the order in which the results reach the
  channel; the channel is the list of the results sent so far.  A panic in a job ends
  the process: the jobs after it in the order are not run and nothing is returned
  through the channel.
\<close>

fun runJobs ::
  "env \<Rightarrow> world \<Rightarrow> string \<Rightarrow> PackageListsProvider \<Rightarrow> (string \<times> string) list
     \<Rightarrow> error option list \<Rightarrow> (error + error option list) \<times> world"
where
  "runJobs env st path p [] errors = (Inr errors, st)"
| "runJobs env st path p ((d, c) # js) errors =
     (case runJob env st path p d c of
        (Some (RuntimePanic m), st1) \<Rightarrow> (Inl (RuntimePanic m), st1)
      | (r, st1) \<Rightarrow> runJobs env st1 path p js (errors @ [r]))"

text \<open>
  Lines 267 to 273: \<open>operations\<close> values are received from the closed channel; an
  empty closed channel gives nil.  The first value that is an error is returned.
\<close>

fun drain :: "nat \<Rightarrow> error option list \<Rightarrow> error option" where
  "drain 0 errors = None"
| "drain (Suc n) [] = drain n []"
| "drain (Suc n) (err # errors) =
     (case err of Some e \<Rightarrow> Some e | None \<Rightarrow> drain n errors)"

text \<open>Lines 247 to 262: one job is started for every pair, in the order of the loops.\<close>

definition startJobs :: "world \<Rightarrow> PackageListsProvider \<Rightarrow> world" where
  "startJobs st provider =
     st\<lparr>dispatched := dispatched st
           @ map (\<lambda>(d, c). (Name provider, d, c)) (jobsOf provider)\<rparr>"

text \<open>Lines 243 to 276: the providers one after the other.\<close>

fun syncProviders ::
  "env \<Rightarrow> world \<Rightarrow> string \<Rightarrow> nat \<Rightarrow> PackageListsProvider list \<Rightarrow> error option \<times> world"
where
  "syncProviders env st path operations [] = (None, st)"
| "syncProviders env st path operations (provider # rest) =
     (let st1 = startJobs st provider
      in (case runJobs env st1 path provider (schedule env (jobsOf provider)) [] of
            (Inl panic, st2) \<Rightarrow> (Some panic, st2)
          | (Inr errors, st2) \<Rightarrow>
              (case drain operations errors of
                 Some err \<Rightarrow> (Some err, st2)
               | None \<Rightarrow> syncProviders env st2 path operations rest)))"

text \<open>\<open>plists\<close> is the parameter \<open>lists\<close> of the source.\<close>

definition SyncRepositories ::
  "env \<Rightarrow> world \<Rightarrow> string \<Rightarrow> PackageListsDefinition \<Rightarrow> string list
     \<Rightarrow> error option \<times> world"
where
  "SyncRepositories env st path plists providerNames =
     (let availableProviderNames = [] @ map Name (Providers plists)
      in (case checkProviderNames availableProviderNames providerNames of
            Some err \<Rightarrow> (Some err, st)
          | None \<Rightarrow>
              let providers = selectProviders plists providerNames;
                  operations = countOperations providers
              in syncProviders env st path operations providers))"

text \<open>The completion orders that can occur: every started job completes once.\<close>

definition fair :: "env \<Rightarrow> bool" where
  "fair env = (\<forall>js. mset (schedule env js) = mset js)"

section \<open>Vocabulary of the statements\<close>

text \<open>
  A record of an index is given by its lines.  A line is well formed when it is not
  empty, holds no newline, and, if it starts with one of the four field names and a
  colon, holds the separator \<open>": "\<close>.  The value of a line is everything after its
  first separator (\<open>afterFirst\<close>), and \<open>fieldValues k ls\<close> are the values of the lines
  of field \<open>k\<close>.
\<close>

definition recordKeys :: "string list" where
  "recordKeys = [''Package'', ''Version'', ''Filename'', ''SHA256'']"

definition wellFormedLine :: "string \<Rightarrow> bool" where
  "wellFormedLine l =
     (l \<noteq> [] \<and> NL \<notin> set l \<and>
      ((\<exists>k \<in> set recordKeys. HasPrefix l (k @ '':'')) \<longrightarrow> Contains l '': ''))"

definition wellFormedRecord :: "string list \<Rightarrow> bool" where
  "wellFormedRecord ls = (ls \<noteq> [] \<and> (\<forall>l \<in> set ls. wellFormedLine l))"

fun afterFirst :: "string \<Rightarrow> string \<Rightarrow> string" where
  "afterFirst [] sep = []"
| "afterFirst (c # cs) sep =
     (if prefix sep (c # cs) then drop (length sep) (c # cs) else afterFirst cs sep)"

definition fieldValues :: "string \<Rightarrow> string list \<Rightarrow> string list" where
  "fieldValues k ls =
     map (\<lambda>l. afterFirst l '': '') (filter (\<lambda>l. HasPrefix l (k @ '':'')) ls)"

text \<open>The place the spec gives for the file of a custom job:
  root, provider name, distribution, remote file name.\<close>

definition customTarget :: "string \<Rightarrow> PackageListsProvider \<Rightarrow> string \<Rightarrow> string \<Rightarrow> string" where
  "customTarget path p d c =
     filepath_Join [filepath_Join [filepath_Join [path, Name p], d],
                    filepath_Base (Url p @ ''/'' @ d @ ''/'' @ c)]"

section \<open>Example environments\<close>

text \<open>
  Concrete worlds for the closed statements below.  The codecs of \<open>exampleEnv\<close> are
  stand-ins: the zstd encoder puts four bytes in front of the payload, the gzip and xz
  readers pass the stream on, the YAML encoder writes the urls of the entries.
\<close>

definition world0 :: world where
  "world0 = \<lparr>files = Map.empty, mkdirs = [], requests = [], logs = [], dispatched = []\<rparr>"

definition exampleEnv :: "(string \<Rightarrow> error + response) \<Rightarrow> env" where
  "exampleEnv get =
     \<lparr>http_Get = get,
      xz_NewReader = (\<lambda>s. Inr s),
      gzip_NewReader = (\<lambda>s. Inr s),
      zstd_encode = (\<lambda>b. Inr (''ZSTD'' @ b)),
      zstd_decode = (\<lambda>z. if prefix ''ZSTD'' z then Inr (drop 4 z) else Inl (Failure ''invalid input'')),
      yaml_Marshal = (\<lambda>d. Inr (concat (map xdeb_Url (Xdeb d)))),
      os_MkdirAll = (\<lambda>p. None),
      os_Create = (\<lambda>p. None),
      file_Write = (\<lambda>p b. None),
      schedule = (\<lambda>js. js)\<rparr>"

definition notFound :: "string \<Rightarrow> error + response" where
  "notFound url =
     Inr \<lparr>StatusCode = 404, Request_URL_Scheme = ''http'', Request_URL_Host = ''mirror.test'',
          Request_URL_Path = drop (length ''http://mirror.test'') url,
          Request_URL_String = url, Body = Inr []\<rparr>"

definition bz2Response :: response where
  "bz2Response =
     \<lparr>StatusCode = 200, Request_URL_Scheme = ''http'', Request_URL_Host = ''mirror.test'',
      Request_URL_Path = ''/dists/stable/main/binary-amd64/Packages.bz2'',
      Request_URL_String = ''http://mirror.test/dists/stable/main/binary-amd64/Packages.bz2'',
      Body = Inr (''Package: a'' @ [NL] @ ''Filename: pool/a.deb'')\<rparr>"

definition movedToBz2 :: "string \<Rightarrow> error + response" where
  "movedToBz2 url = Inr bz2Response"

definition served :: "string \<Rightarrow> error + response" where
  "served url =
     Inr \<lparr>StatusCode = 200, Request_URL_Scheme = ''http'', Request_URL_Host = ''mirror.test'',
          Request_URL_Path = drop (length ''http://mirror.test'') url,
          Request_URL_String = url, Body = Inr ''raw bytes''\<rparr>"

definition unreachable :: "string \<Rightarrow> error + response" where
  "unreachable url = Inl (Failure ''connection refused'')"

definition customProvider :: PackageListsProvider where
  "customProvider = \<lparr>Name = ''example'', Custom = True, Url = ''http://mirror.test/repo'',
      Architecture = ''amd64'', Components = [''main''], Distributions = [''stable'']\<rparr>"

definition aptProvider :: PackageListsProvider where
  "aptProvider = \<lparr>Name = ''debian'', Custom = False, Url = ''http://mirror.test'',
      Architecture = ''amd64'', Components = [''main'', ''contrib''],
      Distributions = [''stable'']\<rparr>"

definition exampleLists :: PackageListsDefinition where
  "exampleLists = \<lparr>Providers = [aptProvider, customProvider]\<rparr>"

section \<open>Properties of \<open>strings.Split\<close>\<close>

lemma Split_not_Nil: "Split s sep \<noteq> []"
  by (induction s sep rule: Split.induct) (auto split: list.splits)

lemma Split_no_sep: "\<not> Contains s sep \<Longrightarrow> Split s sep = [s]"
  by (induction s sep rule: Split.induct) (auto split: list.splits)

lemma not_Contains_NL: "NL \<notin> set s \<Longrightarrow> \<not> Contains s (NL # t)"
  by (induction s) auto

lemma Split_skip: "hd sep \<notin> set l \<Longrightarrow> sep \<noteq> [] \<Longrightarrow>
   Split (l @ rest) sep = (l @ hd (Split rest sep)) # tl (Split rest sep)"
proof (induction l)
  case Nil
  then show ?case using Split_not_Nil[of rest sep] by simp
next
  case (Cons c l)
  then have "\<not> prefix sep (c # l @ rest)" by (cases sep) auto
  with Cons show ?case by simp
qed

lemma Split_NL_cut: "NL \<notin> set l \<Longrightarrow> Split (l @ NL # rest) [NL] = l # Split rest [NL]"
  using Split_skip[of "[NL]" l "NL # rest"] by simp

lemma Split_NL_unlines:
  "ls \<noteq> [] \<Longrightarrow> \<forall>l \<in> set ls. NL \<notin> set l \<Longrightarrow> Split (Join_strings ls [NL]) [NL] = ls"
proof (induction ls "[NL]" rule: Join_strings.induct)
  case 1
  then show ?case by simp
next
  case (2 x)
  then show ?case by (simp add: Split_no_sep not_Contains_NL)
next
  case (3 x y ys)
  then show ?case by (simp add: Split_NL_cut)
qed

lemma Split_NLNL_single:
  "c \<noteq> NL \<Longrightarrow> Split (NL # c # rest) [NL, NL]
      = (NL # hd (Split (c # rest) [NL, NL])) # tl (Split (c # rest) [NL, NL])"
  using Split_not_Nil[of "c # rest" "[NL, NL]"]
  by (cases "Split (c # rest) [NL, NL]") (simp_all del: Split.simps add: Split.simps(2)[of NL])

lemma Split_NLNL_unlines:
  "ls \<noteq> [] \<Longrightarrow> \<forall>l \<in> set ls. l \<noteq> [] \<and> NL \<notin> set l \<Longrightarrow>
   Split (Join_strings ls [NL] @ rest) [NL, NL]
     = (Join_strings ls [NL] @ hd (Split rest [NL, NL])) # tl (Split rest [NL, NL])"
proof (induction ls "[NL]" arbitrary: rest rule: Join_strings.induct)
  case 1
  then show ?case by simp
next
  case (2 x)
  then show ?case using Split_skip[of "[NL, NL]" x rest] by simp
next
  case (3 x y ys)
  from 3(3) obtain c y' where y: "y = c # y'" and c: "c \<noteq> NL"
    by (cases y) auto
  obtain J where J: "Join_strings (y # ys) [NL] = c # J"
    using y by (cases ys) auto
  have ih: "Split (c # J @ rest) [NL, NL]
     = (c # J @ hd (Split rest [NL, NL])) # tl (Split rest [NL, NL])"
    using 3(1)[of rest] 3(3) J by simp
  have "Split (Join_strings (x # y # ys) [NL] @ rest) [NL, NL]
      = Split (x @ (NL # c # J @ rest)) [NL, NL]"
    using J by simp
  also have "\<dots> = (x @ hd (Split (NL # c # J @ rest) [NL, NL])) # tl (Split (NL # c # J @ rest) [NL, NL])"
    using Split_skip[of "[NL, NL]" x "NL # c # J @ rest"] 3(3) by simp
  also have "\<dots> = (x @ NL # c # J @ hd (Split rest [NL, NL])) # tl (Split rest [NL, NL])"
    using Split_NLNL_single[OF c, of "J @ rest"] ih by simp
  finally show ?case using J by simp
qed

section \<open>Properties of the index parser\<close>

lemma Split_afterFirst:
  "sep \<noteq> [] \<Longrightarrow> Contains s sep \<Longrightarrow> \<exists>a. Split s sep = a # Split (afterFirst s sep) sep"
proof (induction s sep rule: Split.induct)
  case (1 sep)
  then show ?case by simp
next
  case (2 c cs sep)
  show ?case
  proof (cases "prefix sep (c # cs)")
    case True
    with 2(3) show ?thesis by simp
  next
    case False
    with 2 obtain a where "Split cs sep = a # Split (afterFirst cs sep) sep" by auto
    with False show ?thesis by simp
  qed
qed

lemma index_Split_1:
  assumes "sep \<noteq> []" and "Contains s sep"
  shows "index (Split s sep) 1 = Inr (hd (Split (afterFirst s sep) sep))"
proof -
  from Split_afterFirst[OF assms] obtain a where
    "Split s sep = a # Split (afterFirst s sep) sep" by blast
  then show ?thesis
    using Split_not_Nil[of "afterFirst s sep" sep]
    by (cases "Split (afterFirst s sep) sep") (simp_all add: index_def)
qed

lemma hd_Split_no_sep: "\<not> Contains v sep \<Longrightarrow> hd (Split v sep) = v"
  by (simp add: Split_no_sep)

lemma prefix_clash: "prefix (a # as) l \<Longrightarrow> prefix (b # bs) l \<Longrightarrow> a = b"
  by (cases l) auto

lemma parseLine_wellFormed:
  assumes "wellFormedLine l"
  shows "\<exists>n v s. parseLine p (n0, v0, u0, s0) l
           = Inr (n, v,
                  if HasPrefix l ''Filename:''
                  then p @ ''/'' @ hd (Split (afterFirst l '': '') '': '') else u0,
                  s)"
proof -
  have sep: "Contains l '': ''"
    if "prefix ''Package:'' l \<or> prefix ''Version:'' l \<or> prefix ''Filename:'' l
        \<or> prefix ''SHA256:'' l"
    using assms that by (auto simp: wellFormedLine_def HasPrefix_def recordKeys_def)
  have ix: "index (Split l '': '') 1 = Inr (hd (Split (afterFirst l '': '') '': ''))"
    if "Contains l '': ''"
    using that by (intro index_Split_1) simp_all
  show ?thesis
  proof (cases "prefix ''Package:'' l")
    case True
    then have "\<not> prefix ''Filename:'' l" by (auto dest: prefix_clash)
    with True ix sep show ?thesis by (simp add: HasPrefix_def)
  next
    case nP: False
    show ?thesis
    proof (cases "prefix ''Version:'' l")
      case True
      then have "\<not> prefix ''Filename:'' l" by (auto dest: prefix_clash)
      with True nP ix sep show ?thesis by (simp add: HasPrefix_def)
    next
      case nV: False
      show ?thesis
      proof (cases "prefix ''Filename:'' l")
        case True
        with nP nV ix sep show ?thesis by (simp add: HasPrefix_def)
      next
        case nF: False
        show ?thesis
        proof (cases "prefix ''SHA256:'' l")
          case True
          with nP nV nF ix sep show ?thesis by (simp add: HasPrefix_def)
        next
          case False
          with nP nV nF show ?thesis by (simp add: HasPrefix_def)
        qed
      qed
    qed
  qed
qed

lemma parseLines_wellFormed:
  "\<forall>l \<in> set ls. wellFormedLine l \<Longrightarrow>
   \<exists>n v s. parseLines p (n0, v0, u0, s0) ls
      = Inr (n, v,
             (case fieldValues ''Filename'' ls of
                [] \<Rightarrow> u0
              | vs \<Rightarrow> p @ ''/'' @ hd (Split (last vs) '': '')),
             s)"
proof (induction ls arbitrary: n0 v0 u0 s0)
  case Nil
  then show ?case by (simp add: fieldValues_def)
next
  case (Cons l ls)
  let ?u1 = "if HasPrefix l ''Filename:''
             then p @ ''/'' @ hd (Split (afterFirst l '': '') '': '') else u0"
  from Cons.prems have wl: "wellFormedLine l" and wls: "\<forall>l \<in> set ls. wellFormedLine l"
    by simp_all
  from parseLine_wellFormed[OF wl, of p n0 v0 u0 s0] obtain n1 v1 s1 where
    step: "parseLine p (n0, v0, u0, s0) l = Inr (n1, v1, ?u1, s1)"
    by blast
  from Cons.IH[OF wls, of n1 v1 ?u1 s1] obtain n v s where
    rest: "parseLines p (n1, v1, ?u1, s1) ls
      = Inr (n, v,
             (case fieldValues ''Filename'' ls of
                [] \<Rightarrow> ?u1
              | vs \<Rightarrow> p @ ''/'' @ hd (Split (last vs) '': '')),
             s)"
    by blast
  show ?case
    using step rest by (auto simp: fieldValues_def split: list.splits)
qed

lemma parseRecord_wellFormed:
  assumes "wellFormedRecord ls" and "fieldValues ''Filename'' ls = [fv]"
  shows "\<exists>e. parseRecord p (Join_strings ls [NL]) = Inr e
             \<and> xdeb_Url e = p @ ''/'' @ hd (Split fv '': '')"
proof -
  from assms(1) have ne: "ls \<noteq> []" and wf: "\<forall>l \<in> set ls. wellFormedLine l"
    by (simp_all add: wellFormedRecord_def)
  have nl: "\<forall>l \<in> set ls. NL \<notin> set l" using wf by (simp add: wellFormedLine_def)
  have sp: "Split (Join_strings ls [NL]) [NL] = ls" by (rule Split_NL_unlines[OF ne nl])
  from parseLines_wellFormed[OF wf, of p "[]" "[]" "[]" "[]"] assms(2)
  obtain n v s where
    "parseLines p ([], [], [], []) ls = Inr (n, v, p @ ''/'' @ hd (Split fv '': ''), s)"
    by auto
  then show ?thesis by (simp add: parseRecord_def sp)
qed

lemma Join_strings_nonempty:
  "ls \<noteq> [] \<Longrightarrow> \<forall>l \<in> set ls. l \<noteq> [] \<Longrightarrow> Join_strings ls sep \<noteq> []"
  by (induction ls sep rule: Join_strings.induct) auto

text \<open>
  What the parser does with two well-formed records that have a blank line between
  them and one \<open>Filename\<close> line each: it returns exactly two entries, the entry of the
  first record and then the entry of the second, and the \<open>url\<close> of each is the prefix,
  a slash and the \<open>Filename\<close> value up to the next separator in it.  This is the whole
  value when the value holds no separator (\<open>hd_Split_no_sep\<close>).
\<close>

lemma parsePackagesFile_two_records_stored:
  assumes "wellFormedRecord ls1" and "wellFormedRecord ls2"
    and "fieldValues ''Filename'' ls1 = [fv1]" and "fieldValues ''Filename'' ls2 = [fv2]"
  shows "\<exists>e1 e2.
     parsePackagesFile urlPrefix (Join_strings ls1 [NL] @ [NL, NL] @ Join_strings ls2 [NL])
       = Inr \<lparr>Xdeb = [e1, e2]\<rparr>
     \<and> parseRecord urlPrefix (Join_strings ls1 [NL]) = Inr e1
     \<and> parseRecord urlPrefix (Join_strings ls2 [NL]) = Inr e2
     \<and> xdeb_Url e1 = urlPrefix @ ''/'' @ hd (Split fv1 '': '')
     \<and> xdeb_Url e2 = urlPrefix @ ''/'' @ hd (Split fv2 '': '')"
proof -
  let ?r1 = "Join_strings ls1 [NL]" and ?r2 = "Join_strings ls2 [NL]"
  from assms(1) have ne1: "ls1 \<noteq> []" and l1: "\<forall>l \<in> set ls1. l \<noteq> [] \<and> NL \<notin> set l"
    by (simp_all add: wellFormedRecord_def wellFormedLine_def)
  from assms(2) have ne2: "ls2 \<noteq> []" and l2: "\<forall>l \<in> set ls2. l \<noteq> [] \<and> NL \<notin> set l"
    by (simp_all add: wellFormedRecord_def wellFormedLine_def)
  have s2: "Split ?r2 [NL, NL] = [?r2]"
    using Split_NLNL_unlines[OF ne2 l2, of "[]"] by simp
  have s0: "Split ([NL, NL] @ ?r2) [NL, NL] = [] # Split ?r2 [NL, NL]"
    by simp
  have s1: "Split (?r1 @ [NL, NL] @ ?r2) [NL, NL] = [?r1, ?r2]"
    using Split_NLNL_unlines[OF ne1 l1, of "[NL, NL] @ ?r2"]
    by (simp only: s0 s2 list.sel append_Nil2)
  have n1: "?r1 \<noteq> []" using Join_strings_nonempty[OF ne1] l1 by blast
  have n2: "?r2 \<noteq> []" using Join_strings_nonempty[OF ne2] l2 by blast
  from parseRecord_wellFormed[OF assms(1) assms(3), of urlPrefix] obtain e1 where
    e1: "parseRecord urlPrefix ?r1 = Inr e1"
        "xdeb_Url e1 = urlPrefix @ ''/'' @ hd (Split fv1 '': '')" by blast
  from parseRecord_wellFormed[OF assms(2) assms(4), of urlPrefix] obtain e2 where
    e2: "parseRecord urlPrefix ?r2 = Inr e2"
        "xdeb_Url e2 = urlPrefix @ ''/'' @ hd (Split fv2 '': '')" by blast
  have "parsePackagesFile urlPrefix (?r1 @ [NL, NL] @ ?r2) = Inr \<lparr>Xdeb = [e1, e2]\<rparr>"
    unfolding parsePackagesFile_def s1 using n1 n2 e1(1) e2(1) by simp
  with e1 e2 show ?thesis by blast
qed

text \<open>The two records of the statement below are well formed.\<close>

lemma truncated_records_wellFormed:
  "wellFormedRecord [''Package: a'', ''Filename: pool/a: 1.deb'']
   \<and> wellFormedRecord [''Package: b'', ''Filename: pool/b.deb'']"
  by (simp add: wellFormedRecord_def wellFormedLine_def recordKeys_def HasPrefix_def)

text \<open>
  Claim C7.  The index of the two well-formed records \<open>Package: a\<close>,
  \<open>Filename: pool/a: 1.deb\<close> and \<open>Package: b\<close>, \<open>Filename: pool/b.deb\<close>, with a blank
  line between them.  The \<open>Filename\<close> value of the first record is \<open>pool/a: 1.deb\<close>.
  The parser returns two entries in the order of the source, but the \<open>url\<close> of the
  first is the prefix, a slash and \<open>pool/a\<close>: not the \<open>Filename\<close> value of its record.
\<close>

theorem parsePackagesFile_two_records_url_truncated:
  "fieldValues ''Filename'' [''Package: a'', ''Filename: pool/a: 1.deb'']
     = [''pool/a: 1.deb'']
   \<and> parsePackagesFile ''http://mirror.test''
         (Join_strings [''Package: a'', ''Filename: pool/a: 1.deb''] [NL]
            @ [NL, NL]
            @ Join_strings [''Package: b'', ''Filename: pool/b.deb''] [NL])
     = Inr \<lparr>Xdeb =
         [\<lparr>xdeb_Name = ''a'', xdeb_Version = [],
            xdeb_Url = ''http://mirror.test/pool/a'', xdeb_Sha256 = []\<rparr>,
          \<lparr>xdeb_Name = ''b'', xdeb_Version = [],
            xdeb_Url = ''http://mirror.test/pool/b.deb'', xdeb_Sha256 = []\<rparr>]\<rparr>"
  by (simp add: fieldValues_def parsePackagesFile_def parseRecord_def HasPrefix_def index_def)

lemma single_line_panics_aux:
  assumes "Split line '': '' = [line]"
    and "HasPrefix line ''Package:'' \<or> HasPrefix line ''Version:''
         \<or> HasPrefix line ''Filename:'' \<or> HasPrefix line ''SHA256:''"
  shows "parseLine urlPrefix fs line = Inl (RuntimePanic ''index out of range'')"
  using assms by (cases fs) (auto simp: index_def)

text \<open>
  Claim C10.  An index that consists of one line which starts with one of the four
  recognised prefixes and holds no separator \<open>": "\<close> makes \<open>parsePackagesFile\<close> panic:
  element 1 of the split line does not exist.  No entry list is returned.
\<close>

theorem parsePackagesFile_panics:
  assumes "HasPrefix line ''Package:'' \<or> HasPrefix line ''Version:''
           \<or> HasPrefix line ''Filename:'' \<or> HasPrefix line ''SHA256:''"
    and "\<not> Contains line '': ''" and "NL \<notin> set line"
  shows "parsePackagesFile urlPrefix line = Inl (RuntimePanic ''index out of range'')"
proof -
  have ne: "line \<noteq> []" using assms(1) by (auto simp: HasPrefix_def)
  have s1: "Split line [NL, NL] = [line]"
    using assms(3) by (intro Split_no_sep not_Contains_NL)
  have s2: "Split line [NL] = [line]"
    using assms(3) by (intro Split_no_sep not_Contains_NL)
  have s3: "Split line '': '' = [line]"
    using assms(2) by (rule Split_no_sep)
  have "parseLine urlPrefix ([], [], [], []) line = Inl (RuntimePanic ''index out of range'')"
    using s3 assms(1) by (rule single_line_panics_aux)
  then show ?thesis
    using ne by (simp add: parsePackagesFile_def parseRecord_def s1 s2)
qed

theorem parsePackagesFile_panics_witness:
  "HasPrefix ''Package:foo'' ''Package:'' \<and> \<not> Contains ''Package:foo'' '': ''
   \<and> NL \<notin> set ''Package:foo''
   \<and> parsePackagesFile ''http://mirror.test'' ''Package:foo''
       = Inl (RuntimePanic ''index out of range'')"
  using parsePackagesFile_panics[of "''Package:foo''" "''http://mirror.test''"]
  by (simp add: HasPrefix_def)

text \<open>
  Claim C4.  The record \<open>Package: foo: bar\<close>: everything after the first separator is
  \<open>foo: bar\<close>, the name stored is \<open>foo\<close>.
\<close>

theorem parsePackagesFile_value_truncated:
  "parsePackagesFile ''http://mirror.test'' ''Package: foo: bar''
     = Inr \<lparr>Xdeb = [\<lparr>xdeb_Name = ''foo'', xdeb_Version = [], xdeb_Url = [],
                      xdeb_Sha256 = []\<rparr>]\<rparr>"
  by (simp add: parsePackagesFile_def parseRecord_def HasPrefix_def index_def)

section \<open>Properties of the repository fetcher\<close>

lemma fetchPackages_all_unavailable:
  assumes "http_Get env url = Inr r1" "StatusCode r1 \<noteq> 200"
    "http_Get env (url @ ''.xz'') = Inr r2" "StatusCode r2 \<noteq> 200"
    "http_Get env (url @ ''.gz'') = Inr r3" "StatusCode r3 \<noteq> 200"
  shows "fetchPackages env st url
     = ((None, None), st\<lparr>requests := requests st @ [url, url @ ''.xz'', url @ ''.gz'']\<rparr>)"
  using assms by (simp add: fetchPackages_def Get_def)

text \<open>
  Claim C1.  When the plain URL, the \<open>.xz\<close> URL and the \<open>.gz\<close> URL are all answered
  (no transport error) with a status other than 200, \<open>pullPackagesFile\<close> returns
  neither a definition nor an error, and \<open>pullAptRepository\<close> returns nil; the only
  change of the state is the three requests: no file is written, no directory made.
\<close>

theorem all_unavailable_is_no_op:
  assumes "http_Get env (packagesUrl urlPrefix dist component architecture) = Inr r1"
    and "StatusCode r1 \<noteq> 200"
    and "http_Get env (packagesUrl urlPrefix dist component architecture @ ''.xz'') = Inr r2"
    and "StatusCode r2 \<noteq> 200"
    and "http_Get env (packagesUrl urlPrefix dist component architecture @ ''.gz'') = Inr r3"
    and "StatusCode r3 \<noteq> 200"
  shows "fst (pullPackagesFile env st urlPrefix dist component architecture) = (None, None)
    \<and> pullAptRepository env st directory urlPrefix dist component architecture
        = (None, st\<lparr>requests := requests st
                      @ [packagesUrl urlPrefix dist component architecture,
                         packagesUrl urlPrefix dist component architecture @ ''.xz'',
                         packagesUrl urlPrefix dist component architecture @ ''.gz'']\<rparr>)
    \<and> files (snd (pullAptRepository env st directory urlPrefix dist component architecture))
        = files st
    \<and> mkdirs (snd (pullAptRepository env st directory urlPrefix dist component architecture))
        = mkdirs st"
proof -
  have "pullPackagesFile env st urlPrefix dist component architecture
     = ((None, None), st\<lparr>requests := requests st
                      @ [packagesUrl urlPrefix dist component architecture,
                         packagesUrl urlPrefix dist component architecture @ ''.xz'',
                         packagesUrl urlPrefix dist component architecture @ ''.gz'']\<rparr>)"
    by (simp add: pullPackagesFile_def fetchPackages_all_unavailable[OF assms])
  then show ?thesis by (simp add: pullAptRepository_def)
qed

theorem all_unavailable_is_no_op_witness:
  "fst (pullPackagesFile (exampleEnv notFound) world0 ''http://mirror.test'' ''stable'' ''main'' ''amd64'')
      = (None, None)
   \<and> pullAptRepository (exampleEnv notFound) world0 ''/var/lib/xdeb/example''
        ''http://mirror.test'' ''stable'' ''main'' ''amd64''
      = (None, world0\<lparr>requests :=
           [''http://mirror.test/dists/stable/main/binary-amd64/Packages'',
            ''http://mirror.test/dists/stable/main/binary-amd64/Packages.xz'',
            ''http://mirror.test/dists/stable/main/binary-amd64/Packages.gz'']\<rparr>)"
  using all_unavailable_is_no_op[of "exampleEnv notFound" "''http://mirror.test''" "''stable''"
      "''main''" "''amd64''" _ _ _ world0 "''/var/lib/xdeb/example''"]
  by (simp add: exampleEnv_def notFound_def packagesUrl_def world0_def)

text \<open>
  The claim C8 as it is written fails: the mirror answers the plain URL with status 200
  from a path that ends in \<open>.bz2\<close>; the body is parsed as plain text and a definition
  is returned, not an error.
\<close>

theorem unknown_suffix_counterexample:
  "StatusCode bz2Response = 200
   \<and> HasSuffix (requestUrl bz2Response) ''.bz2''
   \<and> fst (pullPackagesFile (exampleEnv movedToBz2) world0 ''http://mirror.test''
            ''stable'' ''main'' ''amd64'')
     = (Some \<lparr>Xdeb = [\<lparr>xdeb_Name = ''a'', xdeb_Version = [],
                         xdeb_Url = ''http://mirror.test/pool/a.deb'', xdeb_Sha256 = []\<rparr>]\<rparr>,
        None)"
  by (simp add: pullPackagesFile_def fetchPackages_def Get_def exampleEnv_def movedToBz2_def
      bz2Response_def packagesUrl_def readPackages_def requestUrl_def HasSuffix_def
      ReadAll_def parsePackagesFile_def parseRecord_def HasPrefix_def index_def suffix_def)

text \<open>
  Claim C8, as amended.  When the index was fetched with status 200 and the URL that
  was finally answered ends in neither \<open>.xz\<close> nor \<open>.gz\<close>, whatever else its suffix,
  the body is read as it is and parsed: the result is the parsed definition, or the
  error of reading the body, or the panic of the parser.  No decoder is applied and no
  error about the format is raised.
\<close>

theorem other_suffix_passes_through:
  assumes "fetchPackages env st (packagesUrl urlPrefix dist component architecture)
             = ((Some resp, None), st')"
    and "\<not> HasSuffix (requestUrl resp) ''.xz''" and "\<not> HasSuffix (requestUrl resp) ''.gz''"
  shows "pullPackagesFile env st urlPrefix dist component architecture
     = ((case Body resp of
           Inl err \<Rightarrow> (None, Some err)
         | Inr output \<Rightarrow>
             (case parsePackagesFile urlPrefix output of
                Inl panic \<Rightarrow> (None, Some panic)
              | Inr defn \<Rightarrow> (Some defn, None))), st')"
  using assms by (simp add: pullPackagesFile_def readPackages_def ReadAll_def)

theorem other_suffix_passes_through_witness:
  "\<not> HasSuffix (requestUrl bz2Response) ''.xz''
   \<and> \<not> HasSuffix (requestUrl bz2Response) ''.gz''
   \<and> pullPackagesFile (exampleEnv movedToBz2) world0 ''http://mirror.test''
         ''stable'' ''main'' ''amd64''
     = ((Some \<lparr>Xdeb = [\<lparr>xdeb_Name = ''a'', xdeb_Version = [],
                          xdeb_Url = ''http://mirror.test/pool/a.deb'', xdeb_Sha256 = []\<rparr>]\<rparr>,
         None),
        world0\<lparr>requests := [''http://mirror.test/dists/stable/main/binary-amd64/Packages'']\<rparr>)"
proof -
  have f: "fetchPackages (exampleEnv movedToBz2) world0
             (packagesUrl ''http://mirror.test'' ''stable'' ''main'' ''amd64'')
           = ((Some bz2Response, None),
              world0\<lparr>requests :=
                [''http://mirror.test/dists/stable/main/binary-amd64/Packages'']\<rparr>)"
    by (simp add: fetchPackages_def Get_def exampleEnv_def movedToBz2_def bz2Response_def
        packagesUrl_def world0_def)
  have x: "\<not> HasSuffix (requestUrl bz2Response) ''.xz''"
    by (simp add: HasSuffix_def requestUrl_def bz2Response_def suffix_def)
  have g: "\<not> HasSuffix (requestUrl bz2Response) ''.gz''"
    by (simp add: HasSuffix_def requestUrl_def bz2Response_def suffix_def)
  have b: "Body bz2Response = Inr (''Package: a'' @ [NL] @ ''Filename: pool/a.deb'')"
    by (simp add: bz2Response_def)
  from other_suffix_passes_through[OF f x g] have
    "pullPackagesFile (exampleEnv movedToBz2) world0 ''http://mirror.test''
         ''stable'' ''main'' ''amd64''
     = ((Some \<lparr>Xdeb = [\<lparr>xdeb_Name = ''a'', xdeb_Version = [],
                          xdeb_Url = ''http://mirror.test/pool/a.deb'', xdeb_Sha256 = []\<rparr>]\<rparr>,
         None),
        world0\<lparr>requests := [''http://mirror.test/dists/stable/main/binary-amd64/Packages'']\<rparr>)"
    by (simp add: b parsePackagesFile_def parseRecord_def HasPrefix_def index_def)
  with x g show ?thesis by blast
qed

text \<open>
  The claim C5 as it is written fails: after the job of a custom provider nothing is
  stored under root, provider name, distribution and remote file name; the file has
  the suffix \<open>.zst\<close> and holds the encoded payload, not the raw bytes.
\<close>

theorem custom_job_counterexample:
  "customTarget ''/var/lib/xdeb'' customProvider ''stable'' ''main''
     = ''/var/lib/xdeb/example/stable/main''
   \<and> fst (runJob (exampleEnv served) world0 ''/var/lib/xdeb'' customProvider ''stable'' ''main'')
       = None
   \<and> files (snd (runJob (exampleEnv served) world0 ''/var/lib/xdeb'' customProvider
                    ''stable'' ''main''))
         ''/var/lib/xdeb/example/stable/main'' = None
   \<and> files (snd (runJob (exampleEnv served) world0 ''/var/lib/xdeb'' customProvider
                    ''stable'' ''main''))
         ''/var/lib/xdeb/example/stable/main.zst'' = Some ''ZSTDraw bytes''"
  by code_simp

text \<open>
  Claim C5, as amended.  A job of a custom provider whose download succeeds (status
  200, body read, encoder and file system without error) writes exactly one file: the
  path made of root, provider name, distribution and remote file name, with \<open>.zst\<close>
  appended, and its content is the zstd encoding of the payload.
\<close>

theorem custom_job_persists_compressed:
  assumes "Custom p"
    and "http_Get env (Url p @ ''/'' @ d @ ''/'' @ c) = Inr resp"
    and "StatusCode resp = 200"
    and "Body resp = Inr body"
    and "zstd_encode env body = Inr z"
    and "os_MkdirAll env (filepath_Dir (customTarget path p d c)) = None"
    and "os_Create env (customTarget path p d c @ ''.zst'') = None"
    and "file_Write env (customTarget path p d c @ ''.zst'') z = None"
  shows "fst (runJob env st path p d c) = None
    \<and> files (snd (runJob env st path p d c))
        = (files st)(customTarget path p d c @ ''.zst'' \<mapsto> z)"
  using assms
  by (simp add: customTarget_def runJob_def pullCustomRepository_def DownloadFile_def
      writeFile_def compressData_def Get_def LogMessage_def ReadAll_def Let_def)

theorem custom_job_persists_compressed_witness:
  "Custom customProvider
   \<and> fst (runJob (exampleEnv served) world0 ''/var/lib/xdeb'' customProvider ''stable'' ''main'')
       = None
   \<and> files (snd (runJob (exampleEnv served) world0 ''/var/lib/xdeb'' customProvider
                    ''stable'' ''main''))
       = (files world0)(customTarget ''/var/lib/xdeb'' customProvider ''stable'' ''main''
                          @ ''.zst'' \<mapsto> ''ZSTDraw bytes'')"
proof -
  have c: "Custom customProvider" by (simp add: customProvider_def)
  have g: "http_Get (exampleEnv served) (Url customProvider @ ''/'' @ ''stable'' @ ''/'' @ ''main'')
     = Inr \<lparr>StatusCode = 200, Request_URL_Scheme = ''http'', Request_URL_Host = ''mirror.test'',
          Request_URL_Path = ''/repo/stable/main'',
          Request_URL_String = ''http://mirror.test/repo/stable/main'', Body = Inr ''raw bytes''\<rparr>"
    by (simp add: exampleEnv_def served_def customProvider_def)
  show ?thesis
    using custom_job_persists_compressed[OF c g, of "''raw bytes''" "''ZSTDraw bytes''"
        "''/var/lib/xdeb''" world0] c
    by (simp add: exampleEnv_def)
qed

section \<open>Properties of the sync orchestrator\<close>

lemma checkProviderNames_None:
  "set providerNames \<subseteq> set avail \<Longrightarrow> checkProviderNames avail providerNames = None"
  by (induction providerNames) (auto simp: slices_Contains_def)

lemma checkProviderNames_find:
  "checkProviderNames avail providerNames
     = map_option (\<lambda>n. notSupported n avail) (find (\<lambda>n. n \<notin> set avail) providerNames)"
  by (induction providerNames) (auto simp: slices_Contains_def)

text \<open>
  Claim C2.  For a non-empty list of requested names that all occur among the names of
  the manifest, \<open>SyncRepositories\<close> runs the providers \<open>selectProviders\<close> gives, and
  these are the providers of the manifest whose name is requested, in the order of the
  manifest: a subsequence of the manifest, whose names are exactly the requested names,
  in which no provider occurs more often than in the manifest, and whose names are
  distinct when the names of the manifest are.
\<close>

theorem selectProviders_requested:
  assumes "providerNames \<noteq> []"
    and "set providerNames \<subseteq> set (map Name (Providers plists))"
  shows "SyncRepositories env st path plists providerNames
           = syncProviders env st path
               (countOperations (selectProviders plists providerNames))
               (selectProviders plists providerNames)
    \<and> selectProviders plists providerNames
        = filter (\<lambda>p. Name p \<in> set providerNames) (Providers plists)
    \<and> subseq (selectProviders plists providerNames) (Providers plists)
    \<and> set (map Name (selectProviders plists providerNames)) = set providerNames
    \<and> (\<forall>p. count_list (selectProviders plists providerNames) p
             \<le> count_list (Providers plists) p)
    \<and> (distinct (map Name (Providers plists))
          \<longrightarrow> distinct (map Name (selectProviders plists providerNames)))"
proof -
  have sel: "selectProviders plists providerNames
        = filter (\<lambda>p. Name p \<in> set providerNames) (Providers plists)"
    using assms(1) by (simp add: selectProviders_def slices_Contains_def)
  have run: "SyncRepositories env st path plists providerNames
           = syncProviders env st path
               (countOperations (selectProviders plists providerNames))
               (selectProviders plists providerNames)"
    using checkProviderNames_None[OF assms(2)] by (simp add: SyncRepositories_def Let_def)
  have names: "set (map Name (selectProviders plists providerNames)) = set providerNames"
    using assms(2) by (auto simp: sel)
  have cnt: "count_list (filter P xs) p \<le> count_list xs p" for P and xs :: "PackageListsProvider list" and p
    by (induction xs) auto
  have dist: "distinct (map Name (Providers plists))
          \<Longrightarrow> distinct (map Name (selectProviders plists providerNames))"
    by (simp add: sel distinct_map_filter)
  show ?thesis
    using sel run names dist cnt by (simp add: sel)
qed

theorem selectProviders_requested_witness:
  "[''example'', ''debian'', ''example''] \<noteq> []
   \<and> set [''example'', ''debian'', ''example''] \<subseteq> set (map Name (Providers exampleLists))
   \<and> selectProviders exampleLists [''example'', ''debian'', ''example'']
       = [aptProvider, customProvider]"
proof -
  have n: "[''example'', ''debian'', ''example''] \<noteq> []" by simp
  have v: "set [''example'', ''debian'', ''example''] \<subseteq> set (map Name (Providers exampleLists))"
    by (simp add: exampleLists_def aptProvider_def customProvider_def)
  from selectProviders_requested[OF n v] have
    "selectProviders exampleLists [''example'', ''debian'', ''example'']
       = filter (\<lambda>p. Name p \<in> set [''example'', ''debian'', ''example''])
           (Providers exampleLists)"
    by blast
  with n v show ?thesis
    by (simp add: exampleLists_def aptProvider_def customProvider_def)
qed

text \<open>
  Claim C3.  When a requested name does not occur among the names of the manifest,
  \<open>SyncRepositories\<close> returns the error whose message holds the first such name and
  the list of all names of the manifest, and the state is unchanged: no request was
  sent and no job started.
\<close>

theorem unknown_provider_rejected:
  assumes "\<exists>n \<in> set providerNames. n \<notin> set (map Name (Providers plists))"
  shows "\<exists>n. find (\<lambda>n. n \<notin> set (map Name (Providers plists))) providerNames = Some n
    \<and> SyncRepositories env st path plists providerNames
        = (Some (Failure (''Provider '' @ n @ '' not supported. Omit or use any of [''
                           @ Join_strings (map Name (Providers plists)) '' '' @ '']'')), st)"
proof -
  from assms obtain n where
    n: "find (\<lambda>n. n \<notin> set (map Name (Providers plists))) providerNames = Some n"
    by (cases "find (\<lambda>n. n \<notin> set (map Name (Providers plists))) providerNames")
       (auto simp: find_None_iff)
  then have "checkProviderNames (map Name (Providers plists)) providerNames
      = Some (notSupported n (map Name (Providers plists)))"
    by (simp add: checkProviderNames_find)
  then have "SyncRepositories env st path plists providerNames
      = (Some (notSupported n (map Name (Providers plists))), st)"
    by (simp add: SyncRepositories_def)
  with n show ?thesis by (simp add: notSupported_def format_v_def)
qed

theorem unknown_provider_rejected_witness:
  "(\<exists>n \<in> set [''debian'', ''ubuntu'', ''arch'']. n \<notin> set (map Name (Providers exampleLists)))
   \<and> SyncRepositories (exampleEnv unreachable) world0 ''/var/lib/xdeb'' exampleLists
         [''debian'', ''ubuntu'', ''arch'']
       = (Some (Failure
            ''Provider ubuntu not supported. Omit or use any of [debian example]''),
          world0)"
proof -
  have a: "\<exists>n \<in> set [''debian'', ''ubuntu'', ''arch''].
             n \<notin> set (map Name (Providers exampleLists))"
    by (simp add: exampleLists_def aptProvider_def customProvider_def)
  from unknown_provider_rejected[OF a, of "exampleEnv unreachable" world0 "''/var/lib/xdeb''"] a
  show ?thesis
    by (simp add: exampleLists_def aptProvider_def customProvider_def)
qed

lemma writeFile_dispatched:
  "writeFile env st path data compress = (r, st') \<Longrightarrow> dispatched st' = dispatched st"
  by (auto simp: writeFile_def Let_def split: sum.splits option.splits prod.splits if_splits)

lemma DownloadFile_dispatched:
  "DownloadFile env st path url followRedirects compress = (r, st')
     \<Longrightarrow> dispatched st' = dispatched st"
  by (auto simp: DownloadFile_def Get_def split: sum.splits prod.splits if_splits
      dest!: writeFile_dispatched)

lemma fetchPackages_dispatched:
  "fetchPackages env st url = (r, st') \<Longrightarrow> dispatched st' = dispatched st"
  by (auto simp: fetchPackages_def Get_def split: sum.splits prod.splits if_splits)

lemma pullPackagesFile_dispatched:
  "pullPackagesFile env st urlPrefix dist component architecture = (r, st')
     \<Longrightarrow> dispatched st' = dispatched st"
  by (auto simp: pullPackagesFile_def split: prod.splits option.splits
      dest!: fetchPackages_dispatched)

lemma pullAptRepository_dispatched:
  "pullAptRepository env st directory url dist component architecture = (r, st')
     \<Longrightarrow> dispatched st' = dispatched st"
  by (auto simp: pullAptRepository_def Let_def LogMessage_def
      split: prod.splits option.splits sum.splits if_splits
      dest!: pullPackagesFile_dispatched writeFile_dispatched)

lemma pullCustomRepository_dispatched:
  "pullCustomRepository env st directory urlPrefix dist component = (r, st')
     \<Longrightarrow> dispatched st' = dispatched st"
  by (auto simp: pullCustomRepository_def Let_def LogMessage_def split: prod.splits
      dest!: DownloadFile_dispatched)

lemma runJob_dispatched:
  "runJob env st path p d c = (r, st') \<Longrightarrow> dispatched st' = dispatched st"
  by (auto simp: runJob_def Let_def split: if_splits
      dest: pullCustomRepository_dispatched pullAptRepository_dispatched)

lemma runJobs_Inr:
  "runJobs env st path p js acc = (Inr errors, st')
     \<Longrightarrow> dispatched st' = dispatched st \<and> length errors = length acc + length js"
proof (induction js arbitrary: st acc)
  case Nil
  then show ?case by simp
next
  case (Cons j js)
  obtain d c where j: "j = (d, c)" by (cases j)
  obtain r st1 where r: "runJob env st path p d c = (r, st1)" by (cases "runJob env st path p d c")
  have "runJobs env st1 path p js (acc @ [r]) = (Inr errors, st')"
    using Cons.prems j r by (auto split: option.splits error.splits)
  from Cons.IH[OF this] runJob_dispatched[OF r] show ?case by simp
qed

lemma drain_find:
  "length errors \<le> n \<Longrightarrow>
   drain n errors = (case find (\<lambda>r. r \<noteq> None) errors of None \<Rightarrow> None | Some r \<Rightarrow> r)"
proof (induction n errors rule: drain.induct)
  case (1 errors)
  then show ?case by simp
next
  case (2 n)
  then show ?case by simp
next
  case (3 n err errors)
  then show ?case by (cases err) simp_all
qed

lemma fold_count: "fold (\<lambda>x. Suc) xs n = n + length xs"
  by (induction xs arbitrary: n) auto

lemma fold_count2:
  "fold (\<lambda>x. fold (\<lambda>y. Suc) ys) xs n = n + length xs * length ys"
  by (induction xs arbitrary: n) (auto simp: fold_count)

lemma fold_count3:
  "fold (\<lambda>provider. fold (\<lambda>distribution. fold (\<lambda>component. Suc) (Components provider))
               (Distributions provider)) ps n
    = n + sum_list (map (\<lambda>p. length (Distributions p) * length (Components p)) ps)"
  by (induction ps arbitrary: n) (auto simp: fold_count2)

lemma countOperations_sum:
  "countOperations ps = sum_list (map (\<lambda>p. length (Distributions p) * length (Components p)) ps)"
  by (simp add: countOperations_def fold_count3)

lemma length_jobsOf: "length (jobsOf p) = length (Distributions p) * length (Components p)"
  by (simp add: jobsOf_def length_concat comp_def sum_list_triv)

lemma jobs_le_operations:
  "p \<in> set ps \<Longrightarrow> length (jobsOf p) \<le> countOperations ps"
  by (simp add: countOperations_sum length_jobsOf member_le_sum_list)

lemma syncProviders_append:
  "syncProviders env st path ops (before @ rest)
     = (case syncProviders env st path ops before of
          (None, st1) \<Rightarrow> syncProviders env st1 path ops rest
        | (Some e, st1) \<Rightarrow> (Some e, st1))"
  by (induction before arbitrary: st)
     (auto simp: Let_def split: prod.splits sum.splits option.splits)

text \<open>
  Claim C9.  Let the selected providers be \<open>before\<close>, then \<open>p\<close>, then \<open>later\<close>; let
  the providers of \<open>before\<close> complete without error, and let a job of \<open>p\<close> return an
  error.  Then \<open>SyncRepositories\<close> returns the first error of the channel of \<open>p\<close>, and
  the final state is the state at the end of the jobs of \<open>p\<close>: the jobs started last
  are those of \<open>p\<close>, none of \<open>later\<close>.
\<close>

theorem SyncRepositories_fail_fast:
  assumes "fair env"
    and "set providerNames \<subseteq> set (map Name (Providers plists))"
    and "selectProviders plists providerNames = before @ p # later"
    and "syncProviders env st path (countOperations (before @ p # later)) before = (None, st1)"
    and "runJobs env (startJobs st1 p) path p (schedule env (jobsOf p)) [] = (Inr errors, st2)"
    and "\<exists>e. Some e \<in> set errors"
  shows "\<exists>e. find (\<lambda>r. r \<noteq> None) errors = Some (Some e)
     \<and> SyncRepositories env st path plists providerNames = (Some e, st2)
     \<and> dispatched st2 = dispatched st1 @ map (\<lambda>(d, c). (Name p, d, c)) (jobsOf p)"
proof -
  let ?ops = "countOperations (before @ p # later)"
  from assms(6) obtain e0 where e0: "Some e0 \<in> set errors" by blast
  then obtain r where r: "find (\<lambda>r. r \<noteq> None) errors = Some r"
    by (cases "find (\<lambda>r. r \<noteq> None) errors") (auto simp: find_None_iff)
  then have "r \<noteq> None" by (auto simp: find_Some_iff)
  then obtain e where e: "r = Some e" by blast
  from runJobs_Inr[OF assms(5)] have
    disp: "dispatched st2 = dispatched (startJobs st1 p)"
    and len: "length errors = length (schedule env (jobsOf p))" by simp_all
  have "length (schedule env (jobsOf p)) = length (jobsOf p)"
    using assms(1) by (metis fair_def size_mset)
  then have "length errors \<le> ?ops"
    using len jobs_le_operations[of p "before @ p # later"] by simp
  from drain_find[OF this] r e have dr: "drain ?ops errors = Some e" by simp
  have "syncProviders env st1 path ?ops (p # later) = (Some e, st2)"
    using assms(5) dr by (simp add: Let_def)
  then have "syncProviders env st path ?ops (before @ p # later) = (Some e, st2)"
    using assms(4) by (simp add: syncProviders_append)
  then have "SyncRepositories env st path plists providerNames = (Some e, st2)"
    using checkProviderNames_None[OF assms(2)] assms(3)
    by (simp add: SyncRepositories_def Let_def)
  with r e disp show ?thesis by (simp add: startJobs_def)
qed

theorem SyncRepositories_fail_fast_witness:
  "fair (exampleEnv unreachable)
   \<and> SyncRepositories (exampleEnv unreachable) world0 ''/var/lib/xdeb'' exampleLists []
       = (Some (Failure ''connection refused''),
          world0\<lparr>requests :=
              [''http://mirror.test/dists/stable/main/binary-amd64/Packages'',
               ''http://mirror.test/dists/stable/contrib/binary-amd64/Packages''],
            dispatched := [(''debian'', ''stable'', ''main''), (''debian'', ''stable'', ''contrib'')]\<rparr>)"
proof -
  let ?st2 = "world0\<lparr>requests :=
              [''http://mirror.test/dists/stable/main/binary-amd64/Packages'',
               ''http://mirror.test/dists/stable/contrib/binary-amd64/Packages''],
            dispatched := [(''debian'', ''stable'', ''main''), (''debian'', ''stable'', ''contrib'')]\<rparr>"
  let ?errors = "[Some (Failure ''connection refused''), Some (Failure ''connection refused'')]"
  have f: "fair (exampleEnv unreachable)" by (simp add: fair_def exampleEnv_def)
  have n: "set [] \<subseteq> set (map Name (Providers exampleLists))" by simp
  have s: "selectProviders exampleLists [] = [] @ aptProvider # [customProvider]"
    by (simp add: selectProviders_def exampleLists_def)
  have b: "syncProviders (exampleEnv unreachable) world0 ''/var/lib/xdeb''
             (countOperations ([] @ aptProvider # [customProvider])) [] = (None, world0)"
    by simp
  have r: "runJobs (exampleEnv unreachable) (startJobs world0 aptProvider) ''/var/lib/xdeb''
             aptProvider (schedule (exampleEnv unreachable) (jobsOf aptProvider)) []
           = (Inr ?errors, ?st2)"
    by (simp add: exampleEnv_def unreachable_def aptProvider_def jobsOf_def startJobs_def
        world0_def runJob_def pullAptRepository_def pullPackagesFile_def fetchPackages_def
        Get_def packagesUrl_def Let_def)
  have e: "\<exists>e. Some e \<in> set ?errors" by simp
  from SyncRepositories_fail_fast[OF f n s b r e] f show ?thesis by simp
qed

end
